theory Spec2Isabelle
  imports Complex_Main
begin

section \<open>The NRDC missing-anchors dashboard (pages/2\_NRDC\_Missing\_Anchors.py)\<close>

text \<open>
  The page is one script that the dashboard runtime executes from top to bottom on every
  interaction: it loads a table from a CSV file (memoised), reads three widgets, selects
  rows, shows four metrics, two charts and a table, and offers two CSV downloads.

  Conventions of the embedding.
  \<^item> A Python \<open>str\<close> is represented by its UTF-8 encoding, a \<open>string\<close>. Equality of
    two \<open>str\<close> values is equality of their encodings, and the characters the CSV writer
    tests for (comma, quote, line breaks) are ASCII, which never occur inside a
    multi-byte sequence; \<open>.encode('utf-8')\<close> is the identity on this representation.
  \<^item> A binary64 value is \<open>fval\<close>: not-a-number, the two infinities, or a finite value,
    given by the rational number it is. Comparisons are exact on this representation;
    an arithmetic result is rounded to binary64 by \<open>b64\<close>. The sign of zero is not
    represented.
  \<^item> An entry of an integer column is an \<open>int\<close>; where the library converts it to
    binary64 the conversion is written (\<open>float_of\<close>).
  \<^item> A raised exception is the \<open>Inl\<close> summand of a result.
\<close>

subsection \<open>Binary64 values\<close>

datatype fval = NaN | NInf | Fin rat | PInf

text \<open>The comparison \<open>a <= b\<close> of two floats: false as soon as one side is not a number.\<close>

fun fle :: "fval \<Rightarrow> fval \<Rightarrow> bool" where
  "fle NaN _ = False"
| "fle _ NaN = False"
| "fle NInf _ = True"
| "fle _ PInf = True"
| "fle (Fin a) (Fin b) = (a \<le> b)"
| "fle _ _ = False"

text \<open>The comparison \<open>a == b\<close> of two floats: not-a-number equals nothing, itself included.\<close>

fun feq :: "fval \<Rightarrow> fval \<Rightarrow> bool" where
  "feq NaN _ = False"
| "feq _ NaN = False"
| "feq a b = (a = b)"

text \<open>
  Rounding to binary64, to nearest and on a tie to the even significand. \<open>ilog2 a\<close> is
  the exponent \<open>e\<close> with \<open>2^e \<le> a < 2^(e+1)\<close>; a significand has 53 bits, the least
  exponent of a normal number is -1022, and what rounds to \<open>2^1024\<close> or more is infinite.
\<close>

function bit_length :: "int \<Rightarrow> nat" where
  "bit_length n = (if n \<le> 0 then 0 else Suc (bit_length (n div 2)))"
  by pat_completeness auto
termination
  by (relation "measure nat") auto

declare bit_length.simps [simp del]

definition ilog2 :: "rat \<Rightarrow> int" where
  "ilog2 a = (if 1 \<le> a then int (bit_length \<lfloor>a\<rfloor>) - 1
              else - int (bit_length (\<lceil>1 / a\<rceil> - 1)))"

definition pow2 :: "int \<Rightarrow> rat" where
  "pow2 k = (if 0 \<le> k then 2 ^ nat k else 1 / 2 ^ nat (- k))"

definition round_half_even :: "rat \<Rightarrow> int" where
  "round_half_even r =
     (let f = \<lfloor>r\<rfloor>; d = r - of_int f
      in if d < 1 / 2 then f else if 1 / 2 < d then f + 1 else if f mod 2 = 0 then f else f + 1)"

definition b64 :: "rat \<Rightarrow> fval" where
  "b64 q =
     (if q = 0 then Fin 0
      else
        let a = \<bar>q\<bar>;
            e = ilog2 a;
            u = pow2 (max e (- 1022) - 52);
            m = round_half_even (a / u)
        in if 1024 \<le> e \<or> (e = 1023 \<and> m = 2 ^ 53) then (if 0 < q then PInf else NInf)
           else Fin (if 0 < q then of_int m * u else - (of_int m * u)))"

text \<open>Addition of two floats, and the division of a float by a count.\<close>

fun fadd :: "fval \<Rightarrow> fval \<Rightarrow> fval" where
  "fadd NaN _ = NaN"
| "fadd _ NaN = NaN"
| "fadd (Fin a) (Fin b) = b64 (a + b)"
| "fadd PInf NInf = NaN"
| "fadd NInf PInf = NaN"
| "fadd PInf _ = PInf"
| "fadd _ PInf = PInf"
| "fadd NInf _ = NInf"
| "fadd _ NInf = NInf"

fun fdiv_count :: "fval \<Rightarrow> nat \<Rightarrow> fval" where
  "fdiv_count (Fin a) n = b64 (a / of_nat n)"
| "fdiv_count v n = v"

definition fmax :: "fval \<Rightarrow> fval \<Rightarrow> fval" where
  "fmax a b = (if fle a b then b else a)"

definition fmin :: "fval \<Rightarrow> fval \<Rightarrow> fval" where
  "fmin a b = (if fle b a then b else a)"

subsection \<open>Cells\<close>

text \<open>
  A cell of a table: an entry of an integer column, an entry of a float column (the
  missing-value marker is \<open>Num NaN\<close>) or a text object.
\<close>

datatype cell = I64 int | Num fval | Str string

text \<open>The binary64 value of a numeric cell, as \<open>astype(float64)\<close> and \<open>float()\<close> give it: an
  integer is rounded. A text object has none.\<close>

fun float_of :: "cell \<Rightarrow> fval" where
  "float_of (I64 n) = b64 (of_int n)"
| "float_of (Num v) = v"
| "float_of (Str s) = NaN"

datatype py_error = KeyError string | TypeError | ReadError string | StreamlitAPIException

definition bind_err :: "py_error + 'a \<Rightarrow> ('a \<Rightarrow> py_error + 'b) \<Rightarrow> py_error + 'b" where
  "bind_err m f = (case m of Inl e \<Rightarrow> Inl e | Inr x \<Rightarrow> f x)"

subsection \<open>Tables\<close>

text \<open>
  A \<open>DataFrame\<close>: the column labels in order and the rows in order, each row with its index
  label and its cells, one per column. A \<open>Series\<close> taken from a frame is the list of its
  values in row order: every series of the script comes from the frame it is applied to,
  so the alignment on index labels that pandas performs is positional.
\<close>

record frame =
  columns :: "string list"
  rws :: "(nat \<times> cell list) list"

definition empty_frame :: frame where
  "empty_frame = \<lparr>columns = [], rws = []\<rparr>"

text \<open>\<open>df.empty\<close>: true when an axis has length 0.\<close>

definition is_empty :: "frame \<Rightarrow> bool" where
  "is_empty df = (columns df = [] \<or> rws df = [])"

fun index_of :: "string \<Rightarrow> string list \<Rightarrow> nat option" where
  "index_of n [] = None"
| "index_of n (c # cs) = (if c = n then Some 0 else map_option Suc (index_of n cs))"

text \<open>\<open>df[name]\<close>: the column as a series, or \<open>KeyError\<close>.\<close>

definition getitem :: "frame \<Rightarrow> string \<Rightarrow> py_error + cell list" where
  "getitem df name =
     (case index_of name (columns df) of
        None \<Rightarrow> Inl (KeyError name)
      | Some i \<Rightarrow> Inr (map (\<lambda>r. snd r ! i) (rws df)))"

text \<open>\<open>df[name] = series\<close> for a column that exists: the column is replaced, row by row.\<close>

definition setitem :: "frame \<Rightarrow> string \<Rightarrow> cell list \<Rightarrow> py_error + frame" where
  "setitem df name vs =
     (case index_of name (columns df) of
        None \<Rightarrow> Inl (KeyError name)
      | Some i \<Rightarrow> Inr (df\<lparr>rws := map (\<lambda>(r, v). (fst r, (snd r)[i := v])) (zip (rws df) vs)\<rparr>))"

text \<open>\<open>df[mask]\<close> with a boolean series: the rows whose mask entry is true, in order.\<close>

definition getitem_mask :: "frame \<Rightarrow> bool list \<Rightarrow> frame" where
  "getitem_mask df msk = df\<lparr>rws := map fst (filter snd (zip (rws df) msk))\<rparr>"

text \<open>
  \<open>series >= x\<close> and \<open>series <= x\<close> against a float: elementwise and in binary64, an
  integer column being converted first; a text object compared with a float raises
  \<open>TypeError\<close>.
\<close>

fun cell_ge :: "fval \<Rightarrow> cell \<Rightarrow> py_error + bool" where
  "cell_ge x (Str s) = Inl TypeError"
| "cell_ge x c = Inr (fle x (float_of c))"

fun cell_le :: "fval \<Rightarrow> cell \<Rightarrow> py_error + bool" where
  "cell_le x (Str s) = Inl TypeError"
| "cell_le x c = Inr (fle (float_of c) x)"

fun map_err :: "('a \<Rightarrow> py_error + 'b) \<Rightarrow> 'a list \<Rightarrow> py_error + 'b list" where
  "map_err f [] = Inr []"
| "map_err f (x # xs) =
     (case f x of
        Inl e \<Rightarrow> Inl e
      | Inr y \<Rightarrow> (case map_err f xs of Inl e \<Rightarrow> Inl e | Inr ys \<Rightarrow> Inr (y # ys)))"

definition series_ge :: "cell list \<Rightarrow> fval \<Rightarrow> py_error + bool list" where
  "series_ge s x = map_err (cell_ge x) s"

definition series_le :: "cell list \<Rightarrow> fval \<Rightarrow> py_error + bool list" where
  "series_le s x = map_err (cell_le x) s"

text \<open>
  \<open>series.isin(values)\<close>: membership by hash-table lookup, under which the missing-value
  marker matches itself. The values the script passes are values of the same column
  (the multi-select offers nothing else), so a value and an entry are of one kind.
\<close>

definition series_isin :: "cell list \<Rightarrow> cell list \<Rightarrow> bool list" where
  "series_isin s vs = map (\<lambda>c. c \<in> set vs) s"

text \<open>\<open>series == x\<close>: elementwise equality, under which the missing-value marker equals
  nothing; an integer and a float are compared in binary64.\<close>

fun cell_eq :: "cell \<Rightarrow> cell \<Rightarrow> bool" where
  "cell_eq (Str a) (Str b) = (a = b)"
| "cell_eq (Str a) _ = False"
| "cell_eq _ (Str b) = False"
| "cell_eq (I64 a) (I64 b) = (a = b)"
| "cell_eq a b = feq (float_of a) (float_of b)"

definition series_eq :: "cell list \<Rightarrow> cell \<Rightarrow> bool list" where
  "series_eq s x = map (\<lambda>c. cell_eq c x) s"

definition series_and :: "bool list \<Rightarrow> bool list \<Rightarrow> bool list" where
  "series_and a b = map (\<lambda>(x, y). x \<and> y) (zip a b)"

subsection \<open>Reductions of a column\<close>

text \<open>
  The reductions below are taken of the \<open>Distance\<close> column only, which holds numbers
  once the loader has run; on text a numeric reduction raises.
\<close>

fun as_float :: "cell \<Rightarrow> py_error + fval" where
  "as_float (Str s) = Inl TypeError"
| "as_float c = Inr (float_of c)"

definition dropna :: "fval list \<Rightarrow> fval list" where
  "dropna vs = filter (\<lambda>v. v \<noteq> NaN) vs"

text \<open>
  \<open>series.mean()\<close>: the entries as floats, the missing ones skipped, summed in binary64 and
  divided by their number; of no value at all it is the missing-value marker. The
  additions are made from left to right here; the library's order gives the same sum
  whenever no addition rounds.
\<close>

definition series_mean :: "cell list \<Rightarrow> py_error + fval" where
  "series_mean s =
     bind_err (map_err as_float s) (\<lambda>vs.
       Inr (case dropna vs of
              [] \<Rightarrow> NaN
            | x # xs \<Rightarrow> fdiv_count (foldl fadd x xs) (length (x # xs))))"

text \<open>
  \<open>series.max()\<close> and \<open>series.min()\<close>: of an integer column the greatest and the least
  entry, an integer; of a float column the greatest and the least of the entries that
  are not missing; of no value at all the missing-value marker.
\<close>

fun is_int :: "cell \<Rightarrow> bool" where
  "is_int (I64 n) = True"
| "is_int c = False"

fun int_of :: "cell \<Rightarrow> int" where
  "int_of (I64 n) = n"
| "int_of c = 0"

definition series_max :: "cell list \<Rightarrow> py_error + cell" where
  "series_max s =
     bind_err (map_err as_float s) (\<lambda>vs.
       Inr (case s of
              [] \<Rightarrow> Num NaN
            | c # cs \<Rightarrow>
                if list_all is_int s then I64 (foldl max (int_of c) (map int_of cs))
                else Num (case dropna vs of [] \<Rightarrow> NaN | x # xs \<Rightarrow> foldl fmax x xs)))"

definition series_min :: "cell list \<Rightarrow> py_error + cell" where
  "series_min s =
     bind_err (map_err as_float s) (\<lambda>vs.
       Inr (case s of
              [] \<Rightarrow> Num NaN
            | c # cs \<Rightarrow>
                if list_all is_int s then I64 (foldl min (int_of c) (map int_of cs))
                else Num (case dropna vs of [] \<Rightarrow> NaN | x # xs \<Rightarrow> foldl fmin x xs)))"

text \<open>\<open>series.unique()\<close>: the distinct values in order of first appearance, the
  missing-value marker among them. \<open>series.nunique()\<close> counts the distinct values that are
  not missing.\<close>

definition unique :: "cell list \<Rightarrow> cell list" where
  "unique s = rev (remdups (rev s))"

definition nunique :: "cell list \<Rightarrow> nat" where
  "nunique s = length (unique (filter (\<lambda>c. c \<noteq> Num NaN) s))"

text \<open>
  \<open>series.value_counts().reset_index()\<close> (line 82): one row per distinct value that is not
  missing, with the number of its occurrences, the largest count first and equal counts
  in order of first appearance. The labels of the two columns differ between versions of
  the library; line 83 replaces them.
\<close>

fun insert_desc :: "cell \<times> nat \<Rightarrow> (cell \<times> nat) list \<Rightarrow> (cell \<times> nat) list" where
  "insert_desc x [] = [x]"
| "insert_desc x (y # ys) = (if snd y < snd x then x # y # ys else y # insert_desc x ys)"

definition value_counts :: "cell list \<Rightarrow> (cell \<times> nat) list" where
  "value_counts s =
     (let vs = filter (\<lambda>c. c \<noteq> Num NaN) s
      in foldl (\<lambda>acc x. insert_desc x acc) [] (map (\<lambda>v. (v, count_list vs v)) (unique vs)))"

definition counts_frame :: "(cell \<times> nat) list \<Rightarrow> frame" where
  "counts_frame cs =
     \<lparr>columns = [''index'', ''Market''],
      rws = map (\<lambda>(i, (v, n)). (i, [v, I64 (int n)])) (zip [0..<length cs] cs)\<rparr>"


subsection \<open>The loader (lines 12-32)\<close>

text \<open>
  What the script sees of the world. The path the loader resolves, the listing of the
  script's directory, and the file at the path: \<open>None\<close> when \<open>os.path.exists\<close> is
  false, otherwise what \<open>pd.read_csv\<close> does with it (a frame, or the exception it
  raises). The library's conversions between numbers and text are taken as they are:
  \<open>str_to_float\<close> is the number \<open>pd.to_numeric\<close> reads a text as (\<open>None\<close> where the text
  is not numeric) and \<open>str_to_int\<close> the integer, where the text is an integer literal;
  \<open>float_repr\<close> is the shortest decimal text of a finite float, \<open>fixed2\<close> its text with two
  decimals; \<open>csv_reads\<close> is what the CSV reader makes of one field. \<open>py_sorted\<close> is the
  builtin \<open>sorted\<close>, which raises on values that do not compare, and \<open>linesep\<close> the
  platform's line terminator.
\<close>

datatype field_value = IntField int | FloatField fval | TextField

record env =
  file_path :: string
  listing :: "string list"
  csv_file :: "(py_error + frame) option"
  str_to_float :: "string \<Rightarrow> fval option"
  str_to_int :: "string \<Rightarrow> int option"
  float_repr :: "rat \<Rightarrow> string"
  fixed2 :: "rat \<Rightarrow> string"
  py_sorted :: "cell list \<Rightarrow> py_error + cell list"
  linesep :: string
  csv_reads :: "string \<Rightarrow> field_value"

text \<open>
  \<open>pd.to_numeric(series, errors='coerce')\<close>: a text that cannot be read as a number becomes
  the missing-value marker. The result is an integer column when every entry is an
  integer, and a float column otherwise, its integers converted.
\<close>

fun coerce :: "env \<Rightarrow> cell \<Rightarrow> cell" where
  "coerce e (Str s) =
     (case str_to_float e s of
        None \<Rightarrow> Num NaN
      | Some v \<Rightarrow> (case str_to_int e s of Some n \<Rightarrow> I64 n | None \<Rightarrow> Num v))"
| "coerce e c = c"

definition to_numeric :: "env \<Rightarrow> cell list \<Rightarrow> cell list" where
  "to_numeric e s =
     (let cs = map (coerce e) s
      in if list_all is_int cs then cs else map (\<lambda>c. Num (float_of c)) cs)"

text \<open>
  What the script puts on the page, in order: one event per call that shows something.
  An event carries what the script computed for it. The fixed texts of the banners are
  left out, a heading carries its words without the pictograph in front, and the layout
  calls (\<open>st.columns\<close>) show nothing by themselves. \<open>ExceptionBox\<close> is the runtime's
  display of an exception that a pass raised.
\<close>

datatype metric_value = MInt nat | MNpInt int | MFloat fval | MStr string

datatype ui_event =
    SidebarWrite string
  | SidebarSuccess
  | SidebarError
  | SidebarListing "string list"
  | ErrorBanner
  | Title
  | Info
  | SidebarHeader
  | Slider fval fval
  | Multiselect "cell list"
  | Metric string metric_value
  | Markdown string
  | BarChart frame
  | Histogram frame
  | DataTable frame
  | Selectbox "cell list"
  | DownloadButton string string
  | ExceptionBox py_error

text \<open>The body of \<open>load_data\<close>: the sidebar messages it writes and what it returns.\<close>

definition load_data :: "env \<Rightarrow> ui_event list \<times> (py_error + frame)" where
  "load_data e =
     (case csv_file e of
        Some r \<Rightarrow>
          ([SidebarWrite (file_path e), SidebarSuccess],
           bind_err r (\<lambda>df.
           bind_err (getitem df ''Distance'') (\<lambda>s.
           setitem df ''Distance'' (to_numeric e s))))
      | None \<Rightarrow>
          ([SidebarWrite (file_path e), SidebarError, SidebarListing (listing e)],
           Inr empty_frame))"

subsection \<open>The filter (lines 63-67)\<close>

definition apply_filters :: "frame \<Rightarrow> fval \<times> fval \<Rightarrow> cell list \<Rightarrow> py_error + frame" where
  "apply_filters df dist_range selected_markets =
     bind_err (getitem df ''Distance'') (\<lambda>d1.
     bind_err (series_ge d1 (fst dist_range)) (\<lambda>m1.
     bind_err (getitem df ''Distance'') (\<lambda>d2.
     bind_err (series_le d2 (snd dist_range)) (\<lambda>m2.
     bind_err (getitem df ''Market'') (\<lambda>mk.
     Inr (getitem_mask df
            (series_and (series_and m1 m2) (series_isin mk selected_markets))))))))"

subsection \<open>The CSV writer (lines 109 and 121)\<close>

text \<open>
  \<open>df.to_csv(index=...)\<close> without a path returns the text. A field is quoted when it holds
  the delimiter, the quote character or a line break, with its quote characters doubled;
  an integer is written in decimal, a float by its shortest text, a missing value as the
  empty field; a record that is one empty field is written as a pair of quotes.
\<close>

definition needs_quote :: "string \<Rightarrow> bool" where
  "needs_quote s = list_ex (\<lambda>c. c = CHR '','' \<or> c = CHR 0x22 \<or> c = CHR 0x0A \<or> c = CHR 0x0D) s"

definition quote_field :: "string \<Rightarrow> string" where
  "quote_field s =
     (if needs_quote s
      then [CHR 0x22] @ concat (map (\<lambda>c. if c = CHR 0x22 then [c, c] else [c]) s) @ [CHR 0x22]
      else s)"

function digits :: "int \<Rightarrow> string" where
  "digits n = (if n < 10 then [char_of (48 + n)] else digits (n div 10) @ [char_of (48 + n mod 10)])"
  by pat_completeness auto
termination
  by (relation "measure nat") auto

declare digits.simps [simp del]

definition int_str :: "int \<Rightarrow> string" where
  "int_str n = (if n < 0 then CHR ''-'' # digits (- n) else digits n)"

fun float_str :: "(rat \<Rightarrow> string) \<Rightarrow> string \<Rightarrow> fval \<Rightarrow> string" where
  "float_str rp na NaN = na"
| "float_str rp na PInf = ''inf''"
| "float_str rp na NInf = ''-inf''"
| "float_str rp na (Fin q) = rp q"

fun csv_cell :: "(rat \<Rightarrow> string) \<Rightarrow> cell \<Rightarrow> string" where
  "csv_cell rp (Str s) = s"
| "csv_cell rp (I64 n) = int_str n"
| "csv_cell rp (Num v) = float_str rp [] v"

fun join :: "string \<Rightarrow> string list \<Rightarrow> string" where
  "join sep [] = []"
| "join sep [x] = x"
| "join sep (x # y # ys) = x @ sep @ join sep (y # ys)"

definition csv_record :: "string \<Rightarrow> string list \<Rightarrow> string" where
  "csv_record eol flds =
     (if flds = [[]] then [CHR 0x22, CHR 0x22] else join '','' (map quote_field flds)) @ eol"

definition to_csv :: "env \<Rightarrow> bool \<Rightarrow> frame \<Rightarrow> string" where
  "to_csv e index df =
     csv_record (linesep e) ((if index then [[]] else []) @ columns df)
     @ concat (map (\<lambda>r. csv_record (linesep e)
                          ((if index then [digits (int (fst r))] else [])
                           @ map (csv_cell (float_repr e)) (snd r)))
                   (rws df))"

definition encode_utf8 :: "string \<Rightarrow> string" where
  "encode_utf8 s = s"

subsection \<open>The script (lines 32-127)\<close>

text \<open>
  The state of one session. \<open>heap\<close> holds the frame objects the script has created, an
  address being a position in it; \<open>cache\<close> is the entry of \<open>st.cache_data\<close> for
  \<open>load_data\<close>: the messages and the value of its first completed call; \<open>ui\<close> is what the
  current pass has put on the page.
\<close>

record state =
  heap :: "frame list"
  cache :: "(ui_event list \<times> frame) option"
  ui :: "ui_event list"

type_synonym 'a prog = "state \<Rightarrow> (py_error + 'a) \<times> state"

definition ret :: "'a \<Rightarrow> 'a prog" where
  "ret x s = (Inr x, s)"

definition lift :: "py_error + 'a \<Rightarrow> 'a prog" where
  "lift r s = (r, s)"

definition bind_se :: "'a prog \<Rightarrow> ('a \<Rightarrow> 'b prog) \<Rightarrow> 'b prog" where
  "bind_se m f s = (case m s of (Inl e, s') \<Rightarrow> (Inl e, s') | (Inr x, s') \<Rightarrow> f x s')"

definition emit :: "ui_event \<Rightarrow> unit prog" where
  "emit ev s = (Inr (), s\<lparr>ui := ui s @ [ev]\<rparr>)"

text \<open>A new frame object; reading an object; overwriting an object in place.\<close>

definition new :: "frame \<Rightarrow> nat prog" where
  "new f s = (Inr (length (heap s)), s\<lparr>heap := heap s @ [f]\<rparr>)"

definition deref :: "nat \<Rightarrow> frame prog" where
  "deref a s = (Inr (heap s ! a), s)"

definition assign :: "nat \<Rightarrow> frame \<Rightarrow> unit prog" where
  "assign a f s = (Inr (), s\<lparr>heap := (heap s)[a := f]\<rparr>)"

text \<open>
  \<open>load_data()\<close> under \<open>@st.cache_data\<close> (lines 12 and 32). A first call runs the body and
  keeps its messages and its value when it returns; a later call replays the messages and
  returns a copy of the kept value. Either way the caller holds a frame object of its own.
\<close>

definition load_data_cached :: "env \<Rightarrow> nat prog" where
  "load_data_cached e s =
     (case cache s of
        Some (evs, fr) \<Rightarrow> new fr (s\<lparr>ui := ui s @ evs\<rparr>)
      | None \<Rightarrow>
          (case load_data e of
             (evs, Inl err) \<Rightarrow> (Inl err, s\<lparr>ui := ui s @ evs\<rparr>)
           | (evs, Inr fr) \<Rightarrow> new fr (s\<lparr>ui := ui s @ evs, cache := Some (evs, fr)\<rparr>)))"

text \<open>What the three widgets return in this pass.\<close>

record ui_input =
  dist_range :: "fval \<times> fval"
  selected_markets :: "cell list"
  market_to_export :: cell

text \<open>The text of a value inside an f-string.\<close>

fun py_str :: "env \<Rightarrow> cell \<Rightarrow> string" where
  "py_str e (Str s) = s"
| "py_str e (I64 n) = int_str n"
| "py_str e (Num v) = float_str (float_repr e) ''nan'' v"

text \<open>
  \<open>st.sidebar.slider\<close> (lines 46-52) checks its bounds before it shows anything: it raises
  when the two are equal, as they are for a file with one row, and when one is infinite.
\<close>

definition slider :: "fval \<Rightarrow> fval \<Rightarrow> py_error + unit" where
  "slider min_value max_value =
     (if min_value = PInf \<or> min_value = NInf \<or> max_value = PInf \<or> max_value = NInf
         \<or> feq min_value max_value
      then Inl StreamlitAPIException else Inr ())"

text \<open>Lines 40-60: the sidebar. The slider is shown with its two bounds and the multi-select
  with its options; what the widgets return is in \<open>ui_input\<close>.\<close>

definition sidebar :: "env \<Rightarrow> nat \<Rightarrow> (cell list) prog" where
  "sidebar e df =
     bind_se (emit SidebarHeader) (\<lambda>_.
     bind_se (deref df) (\<lambda>d.
     bind_se (lift (bind_err (getitem d ''Distance'') series_min)) (\<lambda>mn.
     bind_se (deref df) (\<lambda>d.
     bind_se (lift (bind_err (getitem d ''Distance'') series_max)) (\<lambda>mx.
     bind_se (lift (slider (float_of mn) (float_of mx))) (\<lambda>_.
     bind_se (emit (Slider (float_of mn) (float_of mx))) (\<lambda>_.
     bind_se (deref df) (\<lambda>d.
     bind_se (lift (bind_err (getitem d ''Market'') (\<lambda>mk. py_sorted e (unique mk)))) (\<lambda>all_markets.
     bind_se (emit (Multiselect all_markets)) (\<lambda>_.
     ret all_markets))))))))))"

text \<open>Lines 63-67: the filtered view is a new frame object.\<close>

definition filter_stage :: "ui_input \<Rightarrow> nat \<Rightarrow> nat prog" where
  "filter_stage inp df =
     bind_se (deref df) (\<lambda>d.
     bind_se (lift (apply_filters d (dist_range inp) (selected_markets inp))) new)"

text \<open>Lines 70-74: the four metrics. The maximum is shown as the reduction returns it.\<close>

fun metric_of :: "cell \<Rightarrow> metric_value" where
  "metric_of (I64 n) = MNpInt n"
| "metric_of (Num v) = MFloat v"
| "metric_of (Str s) = MStr s"

definition metrics :: "env \<Rightarrow> nat \<Rightarrow> unit prog" where
  "metrics e filtered_df =
     bind_se (deref filtered_df) (\<lambda>f.
     bind_se (emit (Metric ''Total Records'' (MInt (length (rws f))))) (\<lambda>_.
     bind_se (lift (getitem f ''Market'')) (\<lambda>mk.
     bind_se (emit (Metric ''Unique Markets'' (MInt (nunique mk)))) (\<lambda>_.
     bind_se (lift (bind_err (getitem f ''Distance'') series_mean)) (\<lambda>avg.
     bind_se (emit (Metric ''Avg Distance'' (MStr (float_str (fixed2 e) ''nan'' avg)))) (\<lambda>_.
     bind_se (lift (bind_err (getitem f ''Distance'') series_max)) (\<lambda>mx.
     emit (Metric ''Max Distance'' (metric_of mx)))))))))"

text \<open>
  Lines 77-98: the two charts. \<open>market_counts\<close> is a new frame object, and line 83
  overwrites its column labels in place.
\<close>

definition charts :: "nat \<Rightarrow> unit prog" where
  "charts filtered_df =
     bind_se (emit (Markdown ''Visual Analytics'')) (\<lambda>_.
     bind_se (deref filtered_df) (\<lambda>f.
     bind_se (lift (getitem f ''Market'')) (\<lambda>mk.
     bind_se (new (counts_frame (value_counts mk))) (\<lambda>market_counts.
     bind_se (deref market_counts) (\<lambda>mc.
     bind_se (assign market_counts (mc\<lparr>columns := [''Market'', ''Count'']\<rparr>)) (\<lambda>_.
     bind_se (deref market_counts) (\<lambda>mc.
     bind_se (emit (BarChart mc)) (\<lambda>_.
     bind_se (deref filtered_df) (\<lambda>f.
     emit (Histogram f))))))))))"

text \<open>Lines 101-127: the table and the two downloads.\<close>

definition table_and_downloads :: "env \<Rightarrow> ui_input \<Rightarrow> cell list \<Rightarrow> nat \<Rightarrow> nat \<Rightarrow> unit prog" where
  "table_and_downloads e inp all_markets df filtered_df =
     bind_se (emit (Markdown ''Filtered Data Table'')) (\<lambda>_.
     bind_se (deref filtered_df) (\<lambda>f.
     bind_se (emit (DataTable f)) (\<lambda>_.
     bind_se (emit (Markdown ''Download Reports'')) (\<lambda>_.
     bind_se (deref filtered_df) (\<lambda>f.
     bind_se (emit (DownloadButton ''nrdc_filtered_view.csv''
                      (encode_utf8 (to_csv e False f)))) (\<lambda>_.
     bind_se (emit (Selectbox all_markets)) (\<lambda>_.
     bind_se (deref df) (\<lambda>d.
     bind_se (lift (getitem d ''Market'')) (\<lambda>mk.
     bind_se (deref df) (\<lambda>d.
     bind_se (new (getitem_mask d (series_eq mk (market_to_export inp)))) (\<lambda>sub.
     bind_se (deref sub) (\<lambda>m.
     emit (DownloadButton
             (''market_'' @ py_str e (market_to_export inp) @ ''_report.csv'')
             (encode_utf8 (to_csv e False m)))))))))))))))"

text \<open>Lines 34-127: the page for the frame object \<open>df\<close>.\<close>

definition page :: "env \<Rightarrow> ui_input \<Rightarrow> nat \<Rightarrow> unit prog" where
  "page e inp df =
     bind_se (deref df) (\<lambda>d.
       if is_empty d then emit ErrorBanner
       else
         bind_se (emit Title) (\<lambda>_.
         bind_se (emit Info) (\<lambda>_.
         bind_se (sidebar e df) (\<lambda>all_markets.
         bind_se (filter_stage inp df) (\<lambda>filtered_df.
         bind_se (metrics e filtered_df) (\<lambda>_.
         bind_se (charts filtered_df) (\<lambda>_.
         table_and_downloads e inp all_markets df filtered_df)))))))"

text \<open>One pass of the script over the session state, from line 32 on.\<close>

definition script :: "env \<Rightarrow> ui_input \<Rightarrow> unit prog" where
  "script e inp = bind_se (load_data_cached e) (page e inp)"

text \<open>A pass starts on an empty page; the cache entry is what the session keeps.\<close>

definition render :: "env \<Rightarrow> ui_input \<Rightarrow> (ui_event list \<times> frame) option \<Rightarrow> (py_error + unit) \<times> state" where
  "render e inp c = script e inp \<lparr>heap = [], cache = c, ui = []\<rparr>"

text \<open>
  The runtime around the script. At every interaction it runs one pass; an exception
  that the pass raises ends the pass and is shown on the page, under what the pass had
  shown before; the process goes on with the next interaction, with the cache as the
  pass left it. The world and the widgets' values may differ from one interaction to
  the next.
\<close>

definition run_pass ::
  "env \<Rightarrow> ui_input \<Rightarrow> (ui_event list \<times> frame) option
     \<Rightarrow> ui_event list \<times> (ui_event list \<times> frame) option" where
  "run_pass e inp c =
     (case render e inp c of
        (Inl err, s) \<Rightarrow> (ui s @ [ExceptionBox err], cache s)
      | (Inr u, s) \<Rightarrow> (ui s, cache s))"

fun session ::
  "(ui_event list \<times> frame) option \<Rightarrow> (env \<times> ui_input) list \<Rightarrow> ui_event list list" where
  "session c [] = []"
| "session c ((e, inp) # rest) =
     (case run_pass e inp c of (pg, c') \<Rightarrow> pg # session c' rest)"

text \<open>
  The view of a pass in which no widget has been touched: the slider stands at the
  smallest and the largest \<open>Distance\<close> (line 50) and every market is selected (line 59).
\<close>

definition default_view :: "env \<Rightarrow> frame \<Rightarrow> py_error + frame" where
  "default_view e df =
     bind_err (bind_err (getitem df ''Distance'') series_min) (\<lambda>mn.
     bind_err (bind_err (getitem df ''Distance'') series_max) (\<lambda>mx.
     bind_err (slider (float_of mn) (float_of mx)) (\<lambda>_.
     bind_err (bind_err (getitem df ''Market'') (\<lambda>mk. py_sorted e (unique mk))) (\<lambda>all_markets.
     apply_filters df (float_of mn, float_of mx) all_markets))))"


subsection \<open>Reading CSV text back\<close>

text \<open>
  The script never reads what it exports; the round trip of the specification does, with
  the reader the loader uses. First the reading of CSV text into records of text fields:
  fields are separated by commas and records by a line feed, a carriage return or the
  two in a row; a field that starts with a quote runs to its closing quote, two quotes
  in a row inside it standing for one; a line with nothing on it is skipped.
\<close>

datatype rstate = FieldStart | InField | InQuoted | QuoteInQuoted | AfterCR

function read_csv_text :: "rstate \<Rightarrow> string \<Rightarrow> string list \<Rightarrow> string \<Rightarrow> string list list" where
  "read_csv_text st fld rcd [] =
     (case st of
        FieldStart \<Rightarrow> (if rcd = [] then [] else [rcd @ [fld]])
      | AfterCR \<Rightarrow> []
      | _ \<Rightarrow> [rcd @ [fld]])"
| "read_csv_text FieldStart fld rcd (c # cs) =
     (if c = CHR '','' then read_csv_text FieldStart [] (rcd @ [fld]) cs
      else if c = CHR 0x22 then read_csv_text InQuoted [] rcd cs
      else if c = CHR 0x0A then
        (if rcd = [] then read_csv_text FieldStart [] [] cs
         else (rcd @ [fld]) # read_csv_text FieldStart [] [] cs)
      else if c = CHR 0x0D then
        (if rcd = [] then read_csv_text AfterCR [] [] cs
         else (rcd @ [fld]) # read_csv_text AfterCR [] [] cs)
      else read_csv_text InField [c] rcd cs)"
| "read_csv_text InField fld rcd (c # cs) =
     (if c = CHR '','' then read_csv_text FieldStart [] (rcd @ [fld]) cs
      else if c = CHR 0x0A then (rcd @ [fld]) # read_csv_text FieldStart [] [] cs
      else if c = CHR 0x0D then (rcd @ [fld]) # read_csv_text AfterCR [] [] cs
      else read_csv_text InField (fld @ [c]) rcd cs)"
| "read_csv_text InQuoted fld rcd (c # cs) =
     (if c = CHR 0x22 then read_csv_text QuoteInQuoted fld rcd cs
      else read_csv_text InQuoted (fld @ [c]) rcd cs)"
| "read_csv_text QuoteInQuoted fld rcd (c # cs) =
     (if c = CHR 0x22 then read_csv_text InQuoted (fld @ [c]) rcd cs
      else if c = CHR '','' then read_csv_text FieldStart [] (rcd @ [fld]) cs
      else if c = CHR 0x0A then (rcd @ [fld]) # read_csv_text FieldStart [] [] cs
      else if c = CHR 0x0D then (rcd @ [fld]) # read_csv_text AfterCR [] [] cs
      else read_csv_text InField (fld @ [c]) rcd cs)"
| "read_csv_text AfterCR fld rcd (c # cs) =
     (if c = CHR 0x0A then read_csv_text FieldStart [] [] cs
      else read_csv_text FieldStart [] [] (c # cs))"
  by pat_completeness auto
termination
  by (relation "measure (\<lambda>(st, fld, rcd, inp). 2 * length inp + (if st = AfterCR then 1 else 0))")
     auto

definition read_records :: "string \<Rightarrow> string list list" where
  "read_records bytes = read_csv_text FieldStart [] [] bytes"

text \<open>
  Then the table. The first record is the header, whose labels are taken as they stand
  (the reader renames a repeated or an empty label; a table that came from the reader
  has none). Each column gets its type from all of its fields: an integer column when
  every field reads as an integer, a float column when every field reads as a number
  or as a missing value, and a text column otherwise, in which a field stays the text
  it is unless it reads as a missing value. A record shorter than the header is filled
  up with missing values; a longer one, which the writer never makes, is refused. The
  rows are numbered from 0.
\<close>

datatype kind = KInt | KFloat | KText

definition col_kind :: "env \<Rightarrow> string list \<Rightarrow> kind" where
  "col_kind e fs =
     (if list_all (\<lambda>f. case csv_reads e f of IntField n \<Rightarrow> True | _ \<Rightarrow> False) fs then KInt
      else if list_all (\<lambda>f. csv_reads e f \<noteq> TextField) fs then KFloat
      else KText)"

definition typed_cell :: "env \<Rightarrow> kind \<Rightarrow> string \<Rightarrow> cell" where
  "typed_cell e k f =
     (case k of
        KInt \<Rightarrow> (case csv_reads e f of IntField n \<Rightarrow> I64 n | FloatField v \<Rightarrow> Num v | TextField \<Rightarrow> Str f)
      | KFloat \<Rightarrow>
          (case csv_reads e f of
             IntField n \<Rightarrow> Num (b64 (of_int n))
           | FloatField v \<Rightarrow> Num v
           | TextField \<Rightarrow> Str f)
      | KText \<Rightarrow> (if csv_reads e f = FloatField NaN then Num NaN else Str f))"

definition field_at :: "string list \<Rightarrow> nat \<Rightarrow> string" where
  "field_at rcd k = (if k < length rcd then rcd ! k else [])"

definition reparse :: "env \<Rightarrow> string \<Rightarrow> py_error + frame" where
  "reparse e bytes =
     (case read_records bytes of
        [] \<Rightarrow> Inl (ReadError ''EmptyDataError'')
      | header # recs \<Rightarrow>
          if list_ex (\<lambda>rcd. length header < length rcd) recs then Inl (ReadError ''ParserError'')
          else Inr \<lparr>columns = header,
                    rws = map (\<lambda>(i, rcd).
                                (i, map (\<lambda>k. typed_cell e
                                                (col_kind e (map (\<lambda>r. field_at r k) recs))
                                                (field_at rcd k))
                                        [0..<length header]))
                              (zip [0..<length recs] recs)\<rparr>)"

subsection \<open>Vocabulary of the statements\<close>

text \<open>A cell that holds a number, the missing-value marker included.\<close>

fun numeric :: "cell \<Rightarrow> bool" where
  "numeric (Str s) = False"
| "numeric c = True"

text \<open>A table as the CSV reader returns it: every row has one cell per column.\<close>

definition rectangular :: "frame \<Rightarrow> bool" where
  "rectangular df = list_all (\<lambda>r. length (snd r) = length (columns df)) (rws df)"

text \<open>A character that needs no quoting, and the two line terminators of the platforms.\<close>

definition plain :: "char \<Rightarrow> bool" where
  "plain c = (c \<noteq> CHR '','' \<and> c \<noteq> CHR 0x22 \<and> c \<noteq> CHR 0x0A \<and> c \<noteq> CHR 0x0D)"

definition is_eol :: "string \<Rightarrow> bool" where
  "is_eol s = (s = [CHR 0x0A] \<or> s = [CHR 0x0D, CHR 0x0A])"

text \<open>
  A column whose written form the reader reads back. Either it is an integer column and
  the reader reads each written integer as that integer; or it is a float column and
  the reader reads each written float as that float, the empty field as the missing
  value; or it is a text column, with missing values maybe, in which the reader keeps
  at least one label as text and reads no label as a missing value.
\<close>

definition int_column :: "env \<Rightarrow> cell list \<Rightarrow> bool" where
  "int_column e cs =
     list_all (\<lambda>c. case c of I64 n \<Rightarrow> csv_reads e (int_str n) = IntField n | _ \<Rightarrow> False) cs"

definition float_column :: "env \<Rightarrow> cell list \<Rightarrow> bool" where
  "float_column e cs =
     list_all (\<lambda>c. case c of
                      Num x \<Rightarrow> csv_reads e (float_str (float_repr e) [] x) = FloatField x
                    | _ \<Rightarrow> False) cs"

definition text_column :: "env \<Rightarrow> cell list \<Rightarrow> bool" where
  "text_column e cs =
     (list_all (\<lambda>c. case c of
                       Str s \<Rightarrow> csv_reads e s \<noteq> FloatField NaN
                     | Num x \<Rightarrow> x = NaN \<and> csv_reads e [] = FloatField NaN
                     | I64 n \<Rightarrow> False) cs
      \<and> list_ex (\<lambda>c. case c of Str s \<Rightarrow> csv_reads e s = TextField | _ \<Rightarrow> False) cs)"

definition reads_back :: "env \<Rightarrow> frame \<Rightarrow> bool" where
  "reads_back e v =
     list_all (\<lambda>k. let cs = map (\<lambda>r. snd r ! k) (rws v)
                    in int_column e cs \<or> float_column e cs \<or> text_column e cs)
              [0..<length (columns v)]"

text \<open>
  A step of the script that leaves alone what it found: the cache entry and every
  object that existed before the step are the same after it.
\<close>

definition extends :: "state \<Rightarrow> state \<Rightarrow> bool" where
  "extends s s' = (cache s' = cache s \<and> take (length (heap s)) (heap s') = heap s)"

definition frame_safe :: "'a prog \<Rightarrow> bool" where
  "frame_safe m = (\<forall>s. extends s (snd (m s)))"

subsection \<open>Example inputs\<close>

text \<open>
  The data set of the specification's scenario, as the CSV reader returns it: three rows,
  \<open>Distance\<close> a float column and \<open>Market\<close> a text column.
\<close>

definition scenario :: frame where
  "scenario =
     \<lparr>columns = [''Distance'', ''Market''],
      rws = [(0, [Num (Fin 1), Str ''A'']),
             (1, [Num (Fin 5), Str ''B'']),
             (2, [Num (Fin 9), Str ''A''])]\<rparr>"

text \<open>
  A file whose second \<open>Distance\<close> cell is not a number, so that the reader returns the
  column as text.
\<close>

definition dirty :: frame where
  "dirty =
     \<lparr>columns = [''Distance'', ''Market''],
      rws = [(0, [Str ''1.0'', Str ''A'']),
             (1, [Str ''abc'', Str ''B'']),
             (2, [Str ''5.0'', Str ''A''])]\<rparr>"

text \<open>
  A file whose \<open>Distance\<close> entries are integers, the second one more than \<open>2^53\<close>; and a
  file whose market labels are integers.
\<close>

definition big_ints :: frame where
  "big_ints =
     \<lparr>columns = [''Distance'', ''Market''],
      rws = [(0, [I64 0, Str ''A'']),
             (1, [I64 9007199254740993, Str ''A''])]\<rparr>"

definition int_markets :: frame where
  "int_markets =
     \<lparr>columns = [''Distance'', ''Market''],
      rws = [(0, [Num (Fin 7), I64 7]),
             (1, [Num (Fin (17 / 2)), I64 8])]\<rparr>"

text \<open>
  Two data sets whose \<open>Market\<close> column reads \<open>7.0\<close> in the first row: in the first the
  column also holds a label that is not a number, so the reader returns it as text; in
  the second every entry is a number, so the reader returns a float column.
\<close>

definition markets_text :: frame where
  "markets_text =
     \<lparr>columns = [''Distance'', ''Market''],
      rws = [(0, [Num (Fin 1), Str ''7.0'']), (1, [Num (Fin 5), Str ''A''])]\<rparr>"

definition markets_float :: frame where
  "markets_float =
     \<lparr>columns = [''Distance'', ''Market''],
      rws = [(0, [Num (Fin 1), Num (Fin 7)]), (1, [Num (Fin 5), Num (Fin (17 / 2))])]\<rparr>"

text \<open>
  An environment for the examples. The conversions are Python's on the few values the
  examples use; the market labels of the examples appear in ascending order, where
  \<open>sorted\<close> returns its argument.
\<close>

definition ex_parse :: "string \<Rightarrow> fval option" where
  "ex_parse s =
     (if s = ''1.0'' then Some (Fin 1) else if s = ''5.0'' then Some (Fin 5) else None)"

definition ex_repr :: "rat \<Rightarrow> string" where
  "ex_repr q =
     (if q = 1 then ''1.0'' else if q = 5 then ''5.0'' else if q = 7 then ''7.0''
      else if q = 9 then ''9.0'' else if q = 17 / 2 then ''8.5'' else [])"

definition ex_fixed2 :: "rat \<Rightarrow> string" where
  "ex_fixed2 q =
     (if q = 1 then ''1.00'' else if q = 3 then ''3.00'' else if q = 5 then ''5.00''
      else if q = 7 then ''7.00'' else [])"

definition ex_reads :: "string \<Rightarrow> field_value" where
  "ex_reads s =
     (if s = [] then FloatField NaN
      else if s = ''1.0'' then FloatField (Fin 1)
      else if s = ''5.0'' then FloatField (Fin 5)
      else if s = ''7.0'' then FloatField (Fin 7)
      else if s = ''8.5'' then FloatField (Fin (17 / 2))
      else if s = ''9.0'' then FloatField (Fin 9)
      else if s = ''7'' then IntField 7
      else if s = ''8'' then IntField 8
      else TextField)"

definition ex_env :: "(py_error + frame) option \<Rightarrow> env" where
  "ex_env f =
     \<lparr>file_path = ''/app/pages/../nrdc_missing_anchors.csv'',
      listing = [''1_Overview.py'', ''2_NRDC_Missing_Anchors.py''],
      csv_file = f,
      str_to_float = ex_parse,
      str_to_int = (\<lambda>s. None),
      float_repr = ex_repr,
      fixed2 = ex_fixed2,
      py_sorted = Inr,
      linesep = [CHR 0x0A],
      csv_reads = ex_reads\<rparr>"

text \<open>
  Widget values for the examples: the range 0 to 6, the market B alone selected, and the
  market A chosen for the market report.
\<close>

definition ex_inp :: ui_input where
  "ex_inp =
     \<lparr>dist_range = (Fin 0, Fin 6), selected_markets = [Str ''B''], market_to_export = Str ''A''\<rparr>"


section \<open>Properties\<close>

subsection \<open>Columns and masks\<close>

lemma index_of_less: "index_of n cs = Some i \<Longrightarrow> i < length cs"
  by (induction cs arbitrary: i) (auto split: if_splits)

lemma map_err_total:
  "list_all (\<lambda>x. f x = Inr (g x)) xs \<Longrightarrow> map_err f xs = Inr (map g xs)"
  by (induction xs) auto

lemma numeric_ge: "numeric c \<Longrightarrow> cell_ge x c = Inr (fle x (float_of c))"
  by (cases c) auto

lemma numeric_le: "numeric c \<Longrightarrow> cell_le x c = Inr (fle (float_of c) x)"
  by (cases c) auto

lemma numeric_as_float: "numeric c \<Longrightarrow> as_float c = Inr (float_of c)"
  by (cases c) auto

lemma series_ge_numeric:
  "list_all numeric s \<Longrightarrow> series_ge s x = Inr (map (\<lambda>c. fle x (float_of c)) s)"
  unfolding series_ge_def
  by (rule map_err_total) (auto simp: list_all_iff numeric_ge)

lemma series_le_numeric:
  "list_all numeric s \<Longrightarrow> series_le s x = Inr (map (\<lambda>c. fle (float_of c) x) s)"
  unfolding series_le_def
  by (rule map_err_total) (auto simp: list_all_iff numeric_le)

lemma mask_select: "map fst (filter snd (zip xs (map p xs))) = filter p xs"
  by (induction xs) auto

subsection \<open>The loader\<close>

lemma coerce_numeric: "numeric (coerce e c)"
  by (cases c) (auto split: option.splits)

text \<open>The conversion of line 24, cell by cell: what it does to a cell of the column \<open>s\<close>.\<close>

lemma to_numeric_map:
  "to_numeric e s =
     map (\<lambda>c. if list_all is_int (map (coerce e) s) then coerce e c
               else Num (float_of (coerce e c))) s"
  by (simp add: to_numeric_def Let_def comp_def)

lemma load_data_present:
  assumes "csv_file e = Some (Inr raw)" and "index_of ''Distance'' (columns raw) = Some i"
  shows "load_data e =
           ([SidebarWrite (file_path e), SidebarSuccess],
            Inr (raw\<lparr>rws := map (\<lambda>r. (fst r, (snd r)[i :=
                   (if list_all is_int (map (\<lambda>r. coerce e (snd r ! i)) (rws raw))
                    then coerce e (snd r ! i)
                    else Num (float_of (coerce e (snd r ! i))))]))
                               (rws raw)\<rparr>))"
  using assms
  by (simp add: load_data_def bind_err_def getitem_def setitem_def to_numeric_map zip_map2
      zip_same_conv_map comp_def case_prod_beta)

lemma load_data_numeric:
  assumes "csv_file e = Some (Inr raw)" and "rectangular raw" and "load_data e = (evs, Inr df)"
  shows "\<exists>i. index_of ''Distance'' (columns df) = Some i \<and> columns df = columns raw
          \<and> list_all (\<lambda>r. numeric (snd r ! i)) (rws df) \<and> rectangular df"
proof (cases "index_of ''Distance'' (columns raw)")
  case None
  with assms show ?thesis by (simp add: load_data_def bind_err_def getitem_def)
next
  case (Some i)
  have il: "i < length (columns raw)" using Some by (rule index_of_less)
  from load_data_present[OF assms(1) Some] assms(3)
  have df: "df = raw\<lparr>rws := map (\<lambda>r. (fst r, (snd r)[i :=
                   (if list_all is_int (map (\<lambda>r. coerce e (snd r ! i)) (rws raw))
                    then coerce e (snd r ! i)
                    else Num (float_of (coerce e (snd r ! i))))]))
                               (rws raw)\<rparr>"
    by simp
  show ?thesis using assms(2) il Some
    by (auto simp: df rectangular_def list_all_iff coerce_numeric)
qed

subsection \<open>The filter\<close>

lemma apply_filters_numeric:
  assumes "index_of ''Distance'' (columns df) = Some i" and "index_of ''Market'' (columns df) = Some j"
    and "list_all (\<lambda>r. numeric (snd r ! i)) (rws df)"
  shows "apply_filters df (lo, hi) S =
     Inr (df\<lparr>rws := filter (\<lambda>r. fle lo (float_of (snd r ! i)) \<and> fle (float_of (snd r ! i)) hi
                                \<and> snd r ! j \<in> set S) (rws df)\<rparr>)"
proof -
  let ?d = "map (\<lambda>r. snd r ! i) (rws df)"
  have n: "list_all numeric ?d" using assms(3) by (simp add: list_all_iff)
  have m: "series_and (series_and (map (\<lambda>c. fle lo (float_of c)) ?d) (map (\<lambda>c. fle (float_of c) hi) ?d))
             (series_isin (map (\<lambda>r. snd r ! j) (rws df)) S)
           = map (\<lambda>r. fle lo (float_of (snd r ! i)) \<and> fle (float_of (snd r ! i)) hi \<and> snd r ! j \<in> set S) (rws df)"
    by (simp add: series_and_def series_isin_def zip_map_map zip_same_conv_map comp_def)
  show ?thesis
    using assms(1,2)
    by (simp add: apply_filters_def bind_err_def getitem_def series_ge_numeric[OF n]
        series_le_numeric[OF n] m getitem_mask_def mask_select del: map_map)
qed

lemma load_scenario:
  "load_data (ex_env (Some (Inr scenario))) =
     ([SidebarWrite ''/app/pages/../nrdc_missing_anchors.csv'', SidebarSuccess], Inr scenario)"
  by (simp add: load_data_def ex_env_def scenario_def bind_err_def getitem_def setitem_def
      to_numeric_def)

lemma load_dirty:
  "load_data (ex_env (Some (Inr dirty))) =
     ([SidebarWrite ''/app/pages/../nrdc_missing_anchors.csv'', SidebarSuccess],
      Inr \<lparr>columns = [''Distance'', ''Market''],
           rws = [(0, [Num (Fin 1), Str ''A'']),
                  (1, [Num NaN, Str ''B'']),
                  (2, [Num (Fin 5), Str ''A''])]\<rparr>)"
  by (simp add: load_data_def ex_env_def dirty_def bind_err_def getitem_def setitem_def
      to_numeric_def ex_parse_def)

lemma load_big_ints:
  "load_data (ex_env (Some (Inr big_ints))) =
     ([SidebarWrite ''/app/pages/../nrdc_missing_anchors.csv'', SidebarSuccess], Inr big_ints)"
  by (simp add: load_data_def ex_env_def big_ints_def bind_err_def getitem_def setitem_def
      to_numeric_def)

text \<open>
  C2. With no market selected the view has no row, whatever the range and however many
  rows the data set has: the selection never falls back to all markets.
\<close>

theorem empty_selection_empty_view:
  assumes "csv_file e = Some (Inr raw)" and "rectangular raw"
    and "load_data e = (evs, Inr df)"
    and "index_of ''Market'' (columns df) = Some j"
  shows "apply_filters df rng [] = Inr (df\<lparr>rws := []\<rparr>)"
proof -
  from load_data_numeric[OF assms(1,2,3)]
  obtain i where i: "index_of ''Distance'' (columns df) = Some i"
    and n: "list_all (\<lambda>r. numeric (snd r ! i)) (rws df)" by auto
  from apply_filters_numeric[OF i assms(4) n, of "fst rng" "snd rng" "[]"]
  show ?thesis by simp
qed

theorem empty_selection_empty_view_witness:
  "apply_filters scenario (Fin 0, Fin 9) [] =
     Inr \<lparr>columns = [''Distance'', ''Market''], rws = []\<rparr>"
proof -
  have a: "csv_file (ex_env (Some (Inr scenario))) = Some (Inr scenario)"
    by (simp add: ex_env_def)
  have b: "rectangular scenario" by (simp add: rectangular_def scenario_def)
  have d: "index_of ''Market'' (columns scenario) = Some 1" by (simp add: scenario_def)
  show ?thesis
    using empty_selection_empty_view[OF a b load_scenario d, of "(Fin 0, Fin 9)"]
    by (simp add: scenario_def)
qed

lemma filter_dirty_example:
  "apply_filters
     \<lparr>columns = [''Distance'', ''Market''],
      rws = [(0, [Num (Fin 1), Str ''A'']), (1, [Num NaN, Str ''B'']), (2, [Num (Fin 5), Str ''A''])]\<rparr>
     (Fin 0, Fin 3) [Str ''A'', Str ''B''] =
     Inr \<lparr>columns = [''Distance'', ''Market''], rws = [(0, [Num (Fin 1), Str ''A''])]\<rparr>"
  by (simp add: apply_filters_def bind_err_def getitem_def series_ge_def series_le_def
      series_isin_def series_and_def getitem_mask_def)

lemma fle_NaN_right: "\<not> fle x NaN"
  by (cases x) auto

text \<open>
  C10. A row of the file whose \<open>Distance\<close> cell is a text that does not read as a number
  is in the data set with the missing-value marker as its \<open>Distance\<close>, and it is in no
  view, whatever the range and the selection, since no row of a view has a missing
  \<open>Distance\<close>. So the view of an untouched page can be smaller than the data set: on the
  example file it keeps two rows of three.
\<close>

theorem unparseable_distance_never_shown:
  assumes "csv_file e = Some (Inr raw)" and "rectangular raw"
    and "load_data e = (evs, Inr df)"
    and "index_of ''Distance'' (columns df) = Some i"
    and "apply_filters df (lo, hi) S = Inr view"
    and "r \<in> set (rws raw)" and "snd r ! i = Str s" and "str_to_float e s = None"
  shows "list_all (\<lambda>r'. snd r' ! i \<noteq> Num NaN) (rws view)
       \<and> (fst r, (snd r)[i := Num NaN]) \<in> set (rws df)
       \<and> (fst r, (snd r)[i := Num NaN]) \<notin> set (rws view)
       \<and> default_view (ex_env (Some (Inr dirty)))
             \<lparr>columns = [''Distance'', ''Market''],
              rws = [(0, [Num (Fin 1), Str ''A'']), (1, [Num NaN, Str ''B'']),
                     (2, [Num (Fin 5), Str ''A''])]\<rparr>
           = Inr \<lparr>columns = [''Distance'', ''Market''],
                  rws = [(0, [Num (Fin 1), Str ''A'']), (2, [Num (Fin 5), Str ''A''])]\<rparr>"
proof -
  from load_data_numeric[OF assms(1,2,3)] assms(4)
  have cols: "columns df = columns raw" and n: "list_all (\<lambda>r. numeric (snd r ! i)) (rws df)"
    by auto
  have iraw: "index_of ''Distance'' (columns raw) = Some i" using assms(4) cols by simp
  have il: "i < length (columns raw)" using iraw by (rule index_of_less)
  from load_data_present[OF assms(1) iraw] assms(3)
  have df: "df = raw\<lparr>rws := map (\<lambda>r. (fst r, (snd r)[i :=
                   (if list_all is_int (map (\<lambda>r. coerce e (snd r ! i)) (rws raw))
                    then coerce e (snd r ! i)
                    else Num (float_of (coerce e (snd r ! i))))]))
                               (rws raw)\<rparr>"
    by simp
  have len: "length (snd r) = length (columns raw)"
    using assms(2,6) by (auto simp: rectangular_def list_all_iff)
  have co: "coerce e (snd r ! i) = Num NaN" using assms(7,8) by simp
  have notint: "\<not> list_all is_int (map (\<lambda>r. coerce e (snd r ! i)) (rws raw))"
  proof
    assume "list_all is_int (map (\<lambda>r. coerce e (snd r ! i)) (rws raw))"
    then have "is_int (coerce e (snd r ! i))" using assms(6) by (simp add: list_all_iff)
    then show False by (simp add: co)
  qed
  have view: "rws view = filter (\<lambda>r. fle lo (float_of (snd r ! i)) \<and> fle (float_of (snd r ! i)) hi
                                   \<and> snd r ! j \<in> set S) (rws df)"
    if "index_of ''Market'' (columns df) = Some j" for j
    using apply_filters_numeric[OF assms(4) that n, of lo hi S] assms(5) by auto
  obtain j where j: "index_of ''Market'' (columns df) = Some j"
    using assms(4,5)
    by (cases "index_of ''Market'' (columns df)")
       (auto simp: apply_filters_def bind_err_def getitem_def split: sum.splits)
  have A: "list_all (\<lambda>r'. snd r' ! i \<noteq> Num NaN) (rws view)"
    unfolding view[OF j] by (auto simp: list_all_iff fle_NaN_right)
  have "(fst r, (snd r)[i := Num (float_of (coerce e (snd r ! i)))]) \<in> set (rws df)"
    using assms(6) notint by (force simp: df)
  then have B: "(fst r, (snd r)[i := Num NaN]) \<in> set (rws df)"
    by (simp add: co)
  have C: "(fst r, (snd r)[i := Num NaN]) \<notin> set (rws view)"
    using A il len by (auto simp: list_all_iff)
  have D: "default_view (ex_env (Some (Inr dirty)))
             \<lparr>columns = [''Distance'', ''Market''],
              rws = [(0, [Num (Fin 1), Str ''A'']), (1, [Num NaN, Str ''B'']),
                     (2, [Num (Fin 5), Str ''A''])]\<rparr>
           = Inr \<lparr>columns = [''Distance'', ''Market''],
                  rws = [(0, [Num (Fin 1), Str ''A'']), (2, [Num (Fin 5), Str ''A''])]\<rparr>"
    by (simp add: default_view_def bind_err_def getitem_def series_min_def series_max_def
        dropna_def fmin_def fmax_def unique_def ex_env_def apply_filters_def series_ge_def
        series_le_def series_isin_def series_and_def getitem_mask_def slider_def)
  from A B C D show ?thesis by blast
qed

theorem unparseable_distance_never_shown_witness:
  "list_all (\<lambda>r'. snd r' ! 0 \<noteq> Num NaN) [(0, [Num (Fin 1), Str ''A''])]
   \<and> (1, [Num NaN, Str ''B'']) \<in> set [(0, [Num (Fin 1), Str ''A'']), (1, [Num NaN, Str ''B'']),
                                        (2, [Num (Fin 5), Str ''A''])]
   \<and> (1, [Num NaN, Str ''B'']) \<notin> set [(0::nat, [Num (Fin 1), Str ''A''])]"
proof -
  have a: "csv_file (ex_env (Some (Inr dirty))) = Some (Inr dirty)"
    by (simp add: ex_env_def)
  have b: "rectangular dirty" by (simp add: rectangular_def dirty_def)
  have c: "index_of ''Distance''
             (columns \<lparr>columns = [''Distance'', ''Market''],
                rws = [(0, [Num (Fin 1), Str ''A'']), (1, [Num NaN, Str ''B'']),
                       (2, [Num (Fin 5), Str ''A''])]\<rparr>) = Some 0" by simp
  have d: "(1, [Str ''abc'', Str ''B'']) \<in> set (rws dirty)" by (simp add: dirty_def)
  have f: "snd (1::nat, [Str ''abc'', Str ''B'']) ! 0 = Str ''abc''" by simp
  have g: "str_to_float (ex_env (Some (Inr dirty))) ''abc'' = None"
    by (simp add: ex_env_def ex_parse_def)
  show ?thesis
    using unparseable_distance_never_shown[OF a b load_dirty c filter_dirty_example d f g]
    by simp
qed

end
